theory Spec2Isabelle
  imports Complex_Main
begin

section \<open>Python objects: peers, names and equality\<close>

text \<open>
  A transaction is opaque to the consensus engine. The class \<^verbatim>\<open>Transaction\<close> is not
  among the sources; the engine only reads \<^verbatim>\<open>tx.hash\<close> and relies on equality and hashing
  by that hash, so a transaction is identified with its hash.
\<close>

type_synonym tx = int

text \<open>
  A reference to a \<^verbatim>\<open>Node\<close> object as the quorum-set code sees it: the identity of the
  object (\<^verbatim>\<open>id(p)\<close>, compared by \<^verbatim>\<open>is\<close>) and its \<^verbatim>\<open>name\<close>.
\<close>

record peer =
  ident :: nat
  name :: string

text \<open>The objects that reach \<^verbatim>\<open>Node.__eq__\<close> and the membership tests of the engine.\<close>

datatype pyobj =
    PStr string
  | PInt int
  | PNode peer
  | PList "pyobj list"
  | PQuorumSet

text \<open>
  \<^verbatim>\<open>s == x\<close> for a string \<^verbatim>\<open>s\<close>: two strings compare by content; against a \<^verbatim>\<open>Node\<close>
  the string's own comparison gives \<^verbatim>\<open>NotImplemented\<close> and Python calls the reflected
  \<^verbatim>\<open>Node.__eq__(x, s)\<close>; against anything else both sides give \<^verbatim>\<open>NotImplemented\<close> and
  the identity comparison of two different objects is false.
\<close>

fun str_eq :: "string \<Rightarrow> pyobj \<Rightarrow> bool" where
  "str_eq s (PStr t) = (s = t)"
| "str_eq s (PNode m) = (name m = s)"
| "str_eq s (PInt i) = False"
| "str_eq s (PList xs) = False"
| "str_eq s PQuorumSet = False"

text \<open>\<^verbatim>\<open>Node.__eq__(self, name): return self.name == name\<close>\<close>

definition Node_eq :: "peer \<Rightarrow> pyobj \<Rightarrow> bool" where
  "Node_eq n x = str_eq (name n) x"

text \<open>\<^verbatim>\<open>Node.__hash__(self): return hash(self.name)\<close>, over Python's hash of a string.\<close>

definition Node_hash :: "(string \<Rightarrow> int) \<Rightarrow> peer \<Rightarrow> int" where
  "Node_hash hash_str n = hash_str (name n)"

text \<open>
  \<^verbatim>\<open>x == v\<close> for an arbitrary left operand and a \<^verbatim>\<open>Node\<close> on the right: a \<^verbatim>\<open>Node\<close> on the
  left uses \<^verbatim>\<open>Node.__eq__\<close>, a string its own comparison; a list, an integer or a
  \<^verbatim>\<open>QuorumSet\<close> (which defines no \<^verbatim>\<open>__eq__\<close>) gives \<^verbatim>\<open>NotImplemented\<close>, the reflected
  \<^verbatim>\<open>Node.__eq__(v, x)\<close> compares the name of \<^verbatim>\<open>v\<close> with \<^verbatim>\<open>x\<close>.
\<close>

fun py_eq_node :: "pyobj \<Rightarrow> peer \<Rightarrow> bool" where
  "py_eq_node (PNode m) v = Node_eq m (PNode v)"
| "py_eq_node (PStr s) v = str_eq s (PNode v)"
| "py_eq_node (PInt i) v = Node_eq v (PInt i)"
| "py_eq_node (PList xs) v = Node_eq v (PList xs)"
| "py_eq_node PQuorumSet v = Node_eq v PQuorumSet"

text \<open>
  \<^verbatim>\<open>v in xs\<close> and \<^verbatim>\<open>xs.count(v)\<close> for a list of nodes: an element matches when it is the
  same object or compares equal.
\<close>

definition Node_in :: "peer \<Rightarrow> peer list \<Rightarrow> bool" where
  "Node_in v xs = list_ex (\<lambda>x. x = v \<or> Node_eq x (PNode v)) xs"

definition Node_count :: "peer list \<Rightarrow> peer \<Rightarrow> nat" where
  "Node_count xs v = length (filter (\<lambda>x. x = v \<or> Node_eq x (PNode v)) xs)"

section \<open>Value\<close>

text \<open>
  Modelled from the spec: the lifecycle tag of a value (\<^verbatim>\<open>State\<close> is not among the
  sources), one of init, nominated, accepted, confirmed.
\<close>

datatype State = State_init | State_nominated | State_accepted | State_confirmed

text \<open>
  A \<^verbatim>\<open>Value\<close> object. Every value the engine builds holds a Python set of transactions,
  and a list handed to the constructor is only ever read through \<^verbatim>\<open>set(...)\<close>,
  \<^verbatim>\<open>frozenset(...)\<close> or an iteration whose order does not matter, so the field is a set.
\<close>

record Value =
  transactions :: "tx set"
  hash :: int
  state :: State

text \<open>
  \<^verbatim>\<open>Value.__init__\<close>. Python's built-in hash of a frozenset is the parameter
  \<open>hfs\<close>; \<^verbatim>\<open>state\<close> defaults to \<^verbatim>\<open>State.init\<close>.
\<close>

definition Value_init :: "(tx set \<Rightarrow> int) \<Rightarrow> tx set \<Rightarrow> State \<Rightarrow> Value" where
  "Value_init hfs txs st = \<lparr>transactions = txs, hash = hfs txs, state = st\<rparr>"

definition Value_new :: "(tx set \<Rightarrow> int) \<Rightarrow> tx set \<Rightarrow> Value" where
  "Value_new hfs txs = Value_init hfs txs State_init"

text \<open>\<^verbatim>\<open>Value.__eq__\<close>: hash, state and transaction set must all agree.\<close>

definition Value_eq :: "Value \<Rightarrow> Value \<Rightarrow> bool" where
  "Value_eq v w \<longleftrightarrow>
     hash v = hash w \<and> state v = state w \<and> transactions v = transactions w"

text \<open>\<^verbatim>\<open>Value.combine\<close>: the loop accumulates the union, the result is a fresh value.\<close>

definition combine :: "(tx set \<Rightarrow> int) \<Rightarrow> Value list \<Rightarrow> Value" where
  "combine hfs values = Value_new hfs (foldl (\<lambda>combined_txs v. combined_txs \<union> transactions v) {} values)"

text \<open>A sample hash of a frozenset, used only to evaluate concrete examples.\<close>

definition example_hash :: "tx set \<Rightarrow> int" where
  "example_hash S = (\<Sum>t\<in>S. t)"

section \<open>Python numbers\<close>

text \<open>The exceptions the modelled code can raise.\<close>

datatype py_error = KeyError | ZeroDivisionError | TypeError

text \<open>
  A Python \<^verbatim>\<open>float\<close> is an IEEE-754 binary64 number; it is represented by the real number
  it denotes. \<open>round_double\<close> is the rounding every float operation ends with: to the
  nearest number with a 53-bit significand, ties to the even significand. Overflow and
  subnormal numbers are left out: the arguments here are list lengths, thresholds and
  simulated seconds.
\<close>

function bit_length :: "int \<Rightarrow> int" where
  "bit_length n = (if n \<le> 0 then 0 else 1 + bit_length (n div 2))"
  by pat_completeness auto
termination
  by (relation "measure nat") auto

declare bit_length.simps [simp del]

definition pow2 :: "int \<Rightarrow> real" where
  "pow2 e = (if 0 \<le> e then 2 ^ nat e else 1 / 2 ^ nat (- e))"

text \<open>For \<open>q > 0\<close>, the exponent \<open>e\<close> with \<open>2^e \<le> q < 2^(e+1)\<close>.\<close>

definition ilog2 :: "real \<Rightarrow> int" where
  "ilog2 q =
     (if 1 \<le> q then bit_length \<lfloor>q\<rfloor> - 1
      else (let k = bit_length \<lfloor>1 / q\<rfloor>
            in if pow2 (1 - k) \<le> q then 1 - k else - k))"

definition round_half_even :: "real \<Rightarrow> int" where
  "round_half_even q =
     (let f = \<lfloor>q\<rfloor>; d = q - of_int f
      in if d < 1 / 2 then f else if 1 / 2 < d then f + 1
         else if even f then f else f + 1)"

definition round_double :: "real \<Rightarrow> real" where
  "round_double q =
     (if q = 0 then 0
      else (let a = \<bar>q\<bar>; e = ilog2 a - 52; m = round_half_even (a / pow2 e)
            in sgn q * of_int m * pow2 e))"

definition float_of_int :: "int \<Rightarrow> real" where
  "float_of_int n = round_double (of_int n)"

definition float_add :: "real \<Rightarrow> real \<Rightarrow> real" where
  "float_add a b = round_double (a + b)"

definition float_mul :: "real \<Rightarrow> real \<Rightarrow> real" where
  "float_mul a b = round_double (a * b)"

text \<open>Division by a non-zero float (the only divisor below is \<^verbatim>\<open>100.0\<close>).\<close>

definition float_div :: "real \<Rightarrow> real \<Rightarrow> real" where
  "float_div a b = round_double (a / b)"

text \<open>\<^verbatim>\<open>a / b\<close> for two Python integers, \<open>b \<noteq> 0\<close>: the correctly rounded quotient.\<close>

definition int_truediv :: "int \<Rightarrow> int \<Rightarrow> real" where
  "int_truediv a b = round_double (of_int a / of_int b)"

text \<open>A threshold is a Python \<^verbatim>\<open>int\<close> or \<^verbatim>\<open>float\<close>.\<close>

datatype number = PyInt int | PyFloat real

section \<open>QuorumSet\<close>

text \<open>
  An element of \<^verbatim>\<open>inner_sets\<close>, or of a list nested in it: a node or a list, to any depth.
\<close>

datatype qitem = QNode peer | QList "qitem list"

fun obj_of :: "qitem \<Rightarrow> pyobj" where
  "obj_of (QNode p) = PNode p"
| "obj_of (QList xs) = PList (map obj_of xs)"

text \<open>\<^verbatim>\<open>QuorumSet._flatten\<close>, and the identical local helpers of \<^verbatim>\<open>Node\<close>.\<close>

fun flatten :: "qitem list \<Rightarrow> peer list" where
  "flatten [] = []"
| "flatten (QList xs # rest) = flatten xs @ flatten rest"
| "flatten (QNode p # rest) = p # flatten rest"

record QuorumSet =
  node :: peer
  threshold :: number
  nodes :: "peer list"
  inner_sets :: "qitem list"

definition THRESHOLD_DEFAULT :: number where
  "THRESHOLD_DEFAULT = PyInt 55"

text \<open>\<^verbatim>\<open>QuorumSet.__init__\<close> without keyword arguments, and \<^verbatim>\<open>QuorumSet.set\<close>.\<close>

definition QuorumSet_init :: "peer \<Rightarrow> QuorumSet" where
  "QuorumSet_init n = \<lparr>node = n, threshold = THRESHOLD_DEFAULT, nodes = [], inner_sets = []\<rparr>"

definition QuorumSet_set :: "QuorumSet \<Rightarrow> peer list \<Rightarrow> qitem list \<Rightarrow> QuorumSet" where
  "QuorumSet_set qs ns inner = qs\<lparr>nodes := ns, inner_sets := inner\<rparr>"

definition get_nodes :: "QuorumSet \<Rightarrow> peer list" where
  "get_nodes qs = nodes qs"

definition get_inner_sets :: "QuorumSet \<Rightarrow> qitem list" where
  "get_inner_sets qs = inner_sets qs"

definition get_quorum :: "QuorumSet \<Rightarrow> peer list \<times> peer list" where
  "get_quorum qs = (nodes qs, flatten (inner_sets qs))"

text \<open>The property \<^verbatim>\<open>QuorumSet.size\<close>.\<close>

definition QuorumSet_size :: "QuorumSet \<Rightarrow> int" where
  "QuorumSet_size qs = int (length (nodes qs)) + int (length (flatten (inner_sets qs)))"

text \<open>
  The property \<^verbatim>\<open>QuorumSet.minimum_quorum\<close>: \<^verbatim>\<open>math.ceil(sz * t)\<close> for a float threshold
  in \<open>(0, 1]\<close>, \<^verbatim>\<open>math.ceil(sz * (t / 100.0))\<close> otherwise, in float arithmetic.
\<close>

definition minimum_quorum :: "QuorumSet \<Rightarrow> int" where
  "minimum_quorum qs =
     (let sz = QuorumSet_size qs in
      case threshold qs of
        PyFloat t \<Rightarrow>
          if 0 < t \<and> t \<le> 1 then \<lceil>float_mul (float_of_int sz) t\<rceil>
          else \<lceil>float_mul (float_of_int sz) (float_div t 100)\<rceil>
      | PyInt t \<Rightarrow> \<lceil>float_mul (float_of_int sz) (float_div (float_of_int t) 100)\<rceil>)"

text \<open>
  \<^verbatim>\<open>QuorumSet.weight\<close>. The count adds, to the occurrences of \<open>v\<close> among the validators,
  one for every inner set that is a list with \<open>v\<close> among its own elements or that is \<open>v\<close>
  itself. The test \<^verbatim>\<open>self == v\<close> compares the quorum set object with \<open>v\<close>.
\<close>

definition inner_set_has :: "peer \<Rightarrow> qitem \<Rightarrow> bool" where
  "inner_set_has v inner_set =
     (case inner_set of
        QList xs \<Rightarrow> list_ex (\<lambda>x. py_eq_node (obj_of x) v) xs
      | QNode p \<Rightarrow> Node_eq v (PNode p))"

definition weight :: "QuorumSet \<Rightarrow> peer \<Rightarrow> py_error + real" where
  "weight qs v =
     (let count = int (Node_count (nodes qs) v)
                  + int (length (filter (inner_set_has v) (inner_sets qs)));
          total_slices = int (length (nodes qs)) + int (length (inner_sets qs))
      in if py_eq_node PQuorumSet v then
           (if total_slices = 0 then Inl ZeroDivisionError
            else Inr (int_truediv total_slices total_slices))
         else if total_slices = 0 then Inr 0
         else Inr (int_truediv count total_slices))"

text \<open>\<^verbatim>\<open>Node.weight\<close>\<close>

definition Node_weight :: "peer \<Rightarrow> real" where
  "Node_weight v = 1"

section \<open>Ballots, envelopes and the state of a node\<close>

text \<open>
  Python dictionaries are association lists in insertion order with one entry per key; a
  dictionary comprehension over \<^verbatim>\<open>items()\<close> is a filter.
\<close>

type_synonym ('k, 'v) dict = "('k \<times> 'v) list"

definition dict_get :: "('k, 'v) dict \<Rightarrow> 'k \<Rightarrow> 'v option" where
  "dict_get d k = map_of d k"

definition dict_has :: "('k, 'v) dict \<Rightarrow> 'k \<Rightarrow> bool" where
  "dict_has d k = (map_of d k \<noteq> None)"

definition dict_set :: "('k, 'v) dict \<Rightarrow> 'k \<Rightarrow> 'v \<Rightarrow> ('k, 'v) dict" where
  "dict_set d k v = (if dict_has d k then map (\<lambda>(k', v'). if k' = k then (k', v) else (k', v')) d
                     else d @ [(k, v)])"

text \<open>
  The dictionaries with the keys \<^verbatim>\<open>'voted'\<close>, \<^verbatim>\<open>'accepted'\<close>, \<^verbatim>\<open>'confirmed'\<close> and
  \<^verbatim>\<open>'aborted'\<close> that hold the phase states and the statement counters.
\<close>

record 'a phase2 =
  voted :: 'a
  accepted :: 'a

record 'a phase3 = "'a phase2" +
  confirmed :: 'a

record 'a phase4 = "'a phase3" +
  aborted :: 'a

text \<open>
  Modelled from the spec: \<^verbatim>\<open>SCPBallot\<close> and the envelopes \<^verbatim>\<open>SCPPrepare\<close>,
  \<^verbatim>\<open>SCPCommit\<close> and \<^verbatim>\<open>SCPExternalize\<close> are not among the sources; they are the plain
  records of the spec's data model. \<^verbatim>\<open>SCPNominate\<close> carries the three nomination lists.
\<close>

record SCPBallot =
  counter :: int
  "value" :: Value

record envelope =
  ballot :: SCPBallot

record SCPPrepare = envelope +
  aCounter :: int
  cCounter :: int
  hCounter :: int

record SCPCommit = envelope +
  preparedCounter :: int

record SCPExternalize = envelope +
  hCounter :: int
  timestamp :: real

type_synonym SCPNominate = "Value list phase3"

text \<open>
  Modelled from the spec: \<^verbatim>\<open>Ledger\<close> is not among the sources; it is the write-once
  mapping from slot to externalize record, and \<^verbatim>\<open>add_slot\<close> never overwrites an entry.
\<close>

definition add_slot :: "(int, SCPExternalize) dict \<Rightarrow> int \<Rightarrow> SCPExternalize \<Rightarrow> (int, SCPExternalize) dict" where
  "add_slot slots s msg = (if dict_has slots s then slots else slots @ [(s, msg)])"

text \<open>
  The attributes of a \<^verbatim>\<open>Node\<close> object. \<open>this\<close> is the object itself (identity and
  name); \<open>mempool\<close> is the transaction list of the shared mempool and \<open>storage\<close> the
  message list of the node's storage, both external collaborators. A Python set of nodes is
  a list without two nodes of the same name.
\<close>

record Node =
  this :: peer
  quorum_set :: QuorumSet
  ledger :: "(int, SCPExternalize) dict"
  slot :: int
  mempool :: "tx list"
  tx_queue :: "tx list"
  storage :: "SCPNominate list"
  nomination_state :: "Value list phase3"
  statement_counter :: "(int, string set phase2) dict"
  broadcast_flags :: "SCPNominate list"
  priority_list :: "peer list"
  finalised_transactions :: "tx set"
  seen_finalised_ballots :: "(int \<times> Value) set"
  MAX_SLOT_TXS :: nat
  nomination_round :: int
  last_nomination_start_time :: real
  balloting_state :: "(int, SCPBallot) dict phase4"
  ballot_statement_counter :: "(Value, peer set phase4) dict"
  ballot_prepare_broadcast_flags :: "SCPPrepare set"
  received_prepare_broadcast_msgs :: "(string, SCPPrepare list) dict"
  prepared_ballots :: "(Value, SCPPrepare) dict"
  commit_ballot_state :: "(int, SCPBallot) dict phase3"
  commit_ballot_statement_counter :: "(Value, peer set phase4) dict"
  commit_ballot_broadcast_flags :: "SCPCommit set"
  received_commit_ballot_broadcast_msgs :: "(string, SCPCommit list) dict"
  committed_ballots :: "(Value, SCPCommit) dict"
  externalize_broadcast_flags :: "(int \<times> SCPExternalize) set"
  externalized_slot_counter :: "SCPExternalize set"
  peer_externalised_statements :: "(string, (int \<times> SCPExternalize) set) dict"

text \<open>\<^verbatim>\<open>Node.__init__\<close> with the default quorum set, ledger and storage.\<close>

definition Node_init :: "peer \<Rightarrow> Node" where
  "Node_init p =
     \<lparr>this = p, quorum_set = QuorumSet_init p, ledger = [], slot = 1, mempool = [],
      tx_queue = [], storage = [],
      nomination_state = \<lparr>voted = [], accepted = [], confirmed = []\<rparr>,
      statement_counter = [], broadcast_flags = [], priority_list = [],
      finalised_transactions = {}, seen_finalised_ballots = {}, MAX_SLOT_TXS = 200,
      nomination_round = 1, last_nomination_start_time = 0,
      balloting_state = \<lparr>voted = [], accepted = [], confirmed = [], aborted = []\<rparr>,
      ballot_statement_counter = [], ballot_prepare_broadcast_flags = {},
      received_prepare_broadcast_msgs = [], prepared_ballots = [],
      commit_ballot_state = \<lparr>voted = [], accepted = [], confirmed = []\<rparr>,
      commit_ballot_statement_counter = [], commit_ballot_broadcast_flags = {},
      received_commit_ballot_broadcast_msgs = [], committed_ballots = [],
      externalize_broadcast_flags = {}, externalized_slot_counter = {},
      peer_externalised_statements = []\<rparr>"

text \<open>\<^verbatim>\<open>Node.set_quorum\<close>\<close>

definition set_quorum :: "Node \<Rightarrow> peer list \<Rightarrow> qitem list \<Rightarrow> number option \<Rightarrow> Node" where
  "set_quorum st ns inner thr =
     (let qs = (case thr of None \<Rightarrow> quorum_set st | Some t \<Rightarrow> (quorum_set st)\<lparr>threshold := t\<rparr>)
      in st\<lparr>quorum_set := QuorumSet_set qs ns inner\<rparr>)"

section \<open>Finalisation: purges, mempool, externalize\<close>

text \<open>\<^verbatim>\<open>Node.reset_nomination_state\<close>\<close>

definition reset_nomination_state :: "Node \<Rightarrow> Node" where
  "reset_nomination_state st =
     st\<lparr>nomination_state := \<lparr>voted = [], accepted = [], confirmed = []\<rparr>,
        nomination_round := 1\<rparr>"

text \<open>
  The local helpers of \<^verbatim>\<open>reset_commit_phase_state\<close>:
  \<^verbatim>\<open>any(tx.hash in finalized_tx_ids for tx in value.transactions)\<close>.
\<close>

definition value_contains_finalized_tx :: "tx set \<Rightarrow> Value \<Rightarrow> bool" where
  "value_contains_finalized_tx finalized_tx_ids v = (\<exists>t \<in> transactions v. t \<in> finalized_tx_ids)"

definition ballot_contains_finalized_tx :: "tx set \<Rightarrow> SCPBallot \<Rightarrow> bool" where
  "ballot_contains_finalized_tx finalized_tx_ids b =
     (\<exists>t \<in> transactions (value b). t \<in> finalized_tx_ids)"

text \<open>\<^verbatim>\<open>Node.reset_commit_phase_state\<close>\<close>

definition reset_commit_phase_state :: "Node \<Rightarrow> SCPBallot \<Rightarrow> Node" where
  "reset_commit_phase_state st finalized_ballot =
     (let finalized_tx_ids = transactions (value finalized_ballot);
          keep_ballot = (\<lambda>(key, b). \<not> ballot_contains_finalized_tx finalized_tx_ids b);
          keep_msg = (\<lambda>msg. \<not> ballot_contains_finalized_tx finalized_tx_ids (ballot msg))
      in st\<lparr>commit_ballot_statement_counter :=
               filter (\<lambda>(v, data). \<not> value_contains_finalized_tx finalized_tx_ids v)
                 (commit_ballot_statement_counter st),
             commit_ballot_state :=
               \<lparr>voted = filter keep_ballot (voted (commit_ballot_state st)),
                accepted = filter keep_ballot (accepted (commit_ballot_state st)),
                confirmed = filter keep_ballot (confirmed (commit_ballot_state st))\<rparr>,
             commit_ballot_broadcast_flags :=
               Set.filter keep_msg (commit_ballot_broadcast_flags st),
             received_commit_ballot_broadcast_msgs :=
               map (\<lambda>(node_name, msgs). (node_name, filter keep_msg msgs))
                 (received_commit_ballot_broadcast_msgs st)\<rparr>)"

text \<open>\<^verbatim>\<open>Node.reset_prepare_ballot_phase\<close>\<close>

definition reset_prepare_ballot_phase :: "Node \<Rightarrow> SCPBallot \<Rightarrow> Node" where
  "reset_prepare_ballot_phase st finalized_ballot =
     (let finalized_value_hash = hash (value finalized_ballot);
          keep_ballot = (\<lambda>(key, b). hash (value b) \<noteq> finalized_value_hash);
          keep_msg = (\<lambda>msg. hash (value (ballot msg)) \<noteq> finalized_value_hash)
      in st\<lparr>balloting_state :=
               \<lparr>voted = filter keep_ballot (voted (balloting_state st)),
                accepted = filter keep_ballot (accepted (balloting_state st)),
                confirmed = filter keep_ballot (confirmed (balloting_state st)),
                aborted = filter keep_ballot (aborted (balloting_state st))\<rparr>,
             ballot_statement_counter :=
               filter (\<lambda>(v, data). hash v \<noteq> finalized_value_hash) (ballot_statement_counter st),
             prepared_ballots :=
               filter (\<lambda>(v, b). hash v \<noteq> finalized_value_hash) (prepared_ballots st),
             ballot_prepare_broadcast_flags :=
               Set.filter keep_msg (ballot_prepare_broadcast_flags st),
             received_prepare_broadcast_msgs :=
               map (\<lambda>(node_name, msgs). (node_name, filter keep_msg msgs))
                 (received_prepare_broadcast_msgs st)\<rparr>)"

text \<open>
  \<^verbatim>\<open>Node.collect_finalised_transactions\<close>: every ballot of an externalize message not yet
  seen adds its key and its transaction hashes. The order of the loop does not matter.
\<close>

definition collect_finalised_transactions :: "Node \<Rightarrow> Node" where
  "collect_finalised_transactions st =
     (if slot st = 1 then st
      else (let keys = (\<lambda>ext_msg. (counter (ballot ext_msg), value (ballot ext_msg)))
                         ` externalized_slot_counter st;
                fresh = keys - seen_finalised_ballots st
            in st\<lparr>seen_finalised_ballots := seen_finalised_ballots st \<union> fresh,
                   finalised_transactions :=
                     finalised_transactions st \<union> (\<Union>(c, v) \<in> fresh. transactions v)\<rparr>))"

text \<open>
  \<^verbatim>\<open>for tx in txs: try: mempool.transactions.remove(tx) except ValueError: pass\<close>: the
  first occurrence of every element of \<open>txs\<close> leaves the list.
\<close>

fun remove_each :: "tx set \<Rightarrow> tx list \<Rightarrow> tx list" where
  "remove_each txs [] = []"
| "remove_each txs (x # xs) =
     (if x \<in> txs then remove_each (txs - {x}) xs else x # remove_each txs xs)"

text \<open>\<^verbatim>\<open>Node.remove_txs_from_mempool\<close>\<close>

definition remove_txs_from_mempool :: "Node \<Rightarrow> Value \<Rightarrow> Node" where
  "remove_txs_from_mempool st v =
     (let st1 = collect_finalised_transactions st
      in st1\<lparr>mempool := remove_each (transactions v)
                            (remove_each (finalised_transactions st1) (mempool st1))\<rparr>)"

text \<open>
  \<^verbatim>\<open>Node.prepare_Externalize_msg\<close>. \<open>now\<close> is \<^verbatim>\<open>Globals.simulation_time\<close>; \<open>i\<close> is the
  draw of \<^verbatim>\<open>np.random.choice\<close> in \<^verbatim>\<open>retrieve_confirmed_commit_ballot\<close>, an index into the
  keys of the confirmed commit ballots.
\<close>

definition retrieve_confirmed_commit_ballot :: "nat \<Rightarrow> Node \<Rightarrow> SCPBallot option" where
  "retrieve_confirmed_commit_ballot i st =
     (let d = confirmed (commit_ballot_state st)
      in if length d > 0 then dict_get d (map fst d ! (i mod length d)) else None)"

definition prepare_Externalize_msg :: "real \<Rightarrow> nat \<Rightarrow> Node \<Rightarrow> Node" where
  "prepare_Externalize_msg now i st =
     (if length (confirmed (commit_ballot_state st)) = 0 then st
      else case retrieve_confirmed_commit_ballot i st of
        None \<Rightarrow> st
      | Some finalised_ballot \<Rightarrow>
         (let externalize_msg = \<lparr>ballot = finalised_ballot, hCounter = counter finalised_ballot,
                                  timestamp = now\<rparr>;
              temp_value = value (ballot externalize_msg);
              st1 = st\<lparr>ledger := add_slot (ledger st) (slot st) externalize_msg,
                       externalize_broadcast_flags :=
                         insert (slot st, externalize_msg) (externalize_broadcast_flags st),
                       externalized_slot_counter :=
                         insert externalize_msg (externalized_slot_counter st)\<rparr>;
              st2 = (reset_nomination_state st1)\<lparr>priority_list := [], last_nomination_start_time := now\<rparr>;
              st3 = reset_commit_phase_state st2 (ballot externalize_msg);
              st4 = reset_prepare_ballot_phase st3 (ballot externalize_msg);
              st5 = remove_txs_from_mempool st4 temp_value
          in st5\<lparr>slot := slot st5 + 1, nomination_round := 1\<rparr>))"

text \<open>
  \<^verbatim>\<open>Node.process_externalize_msg\<close>. \<^verbatim>\<open>setdefault(name, set()).add(...)\<close> on the peer's
  externalised statements is \<open>record_statement\<close>.
\<close>

definition record_statement ::
  "(string, (int \<times> SCPExternalize) set) dict \<Rightarrow> string \<Rightarrow> int \<times> SCPExternalize
     \<Rightarrow> (string, (int \<times> SCPExternalize) set) dict" where
  "record_statement d n x =
     (case dict_get d n of None \<Rightarrow> dict_set d n {x} | Some S \<Rightarrow> dict_set d n (insert x S))"

definition process_externalize_msg :: "real \<Rightarrow> int \<Rightarrow> SCPExternalize \<Rightarrow> peer \<Rightarrow> Node \<Rightarrow> Node" where
  "process_externalize_msg now slot_number message sending_node st =
     (if dict_has (ledger st) slot_number then st
      else if slot_number \<noteq> slot st then st
      else (let st1 = st\<lparr>ledger := add_slot (ledger st) slot_number message,
                          peer_externalised_statements :=
                            record_statement (peer_externalised_statements st)
                              (name sending_node) (slot_number, message),
                          externalize_broadcast_flags :=
                            insert (slot_number, message) (externalize_broadcast_flags st),
                          externalized_slot_counter :=
                            insert message (externalized_slot_counter st),
                          nomination_round := 1\<rparr>;
                st2 = (reset_nomination_state st1)\<lparr>last_nomination_start_time := now\<rparr>;
                st3 = reset_commit_phase_state st2 (ballot message);
                st4 = reset_prepare_ballot_phase st3 (ballot message);
                st5 = remove_txs_from_mempool st4 (value (ballot message))
            in st5\<lparr>slot := slot st5 + 1\<rparr>))"

section \<open>Threshold checks of the nomination phase\<close>

text \<open>\<^verbatim>\<open>val in values\<close> for a list of values: some element is the object or equals it.\<close>

definition Value_in :: "Value \<Rightarrow> Value list \<Rightarrow> bool" where
  "Value_in val vals = list_ex (\<lambda>x. Value_eq x val) vals"

text \<open>The loops that drop repeated objects by \<^verbatim>\<open>id(p)\<close>.\<close>

fun unique_ids :: "nat set \<Rightarrow> peer list \<Rightarrow> peer list" where
  "unique_ids seen_ids [] = []"
| "unique_ids seen_ids (p # ps) =
     (if ident p \<in> seen_ids then unique_ids seen_ids ps
      else p # unique_ids (insert (ident p) seen_ids) ps)"

text \<open>
  \<^verbatim>\<open>Node.check_Quorum_threshold\<close>. The counter entry is read with
  \<^verbatim>\<open>statement_counter.get(val.hash, {"voted": set(), "accepted": set()})\<close>.
\<close>

definition check_Quorum_threshold :: "Node \<Rightarrow> Value \<Rightarrow> bool" where
  "check_Quorum_threshold st val =
     (if \<not> Value_in val (voted (nomination_state st))
         \<and> \<not> Value_in val (accepted (nomination_state st)) then False
      else (let top = get_nodes (quorum_set st);
                inner = get_inner_sets (quorum_set st);
                all_peers = top @ flatten inner;
                unique = unique_ids {} (all_peers @ [this st]);
                entry = (case dict_get (statement_counter st) (hash val) of
                           None \<Rightarrow> \<lparr>voted = {}, accepted = {}\<rparr>
                         | Some e \<Rightarrow> e);
                signed = int (length (filter
                           (\<lambda>p. ident p = ident (this st) \<or> name p \<in> voted entry
                                \<or> name p \<in> accepted entry) unique));
                needed = minimum_quorum (quorum_set st)
            in signed \<ge> needed))"

text \<open>
  \<^verbatim>\<open>QuorumSet.check_inner_set_blocking_threshold\<close>. The counter entry is read with
  \<^verbatim>\<open>calling_node.statement_counter[val.hash]\<close>, which raises \<^verbatim>\<open>KeyError\<close> for a missing
  key. The set \<^verbatim>\<open>seen\<close> holds nodes, which are told apart by name.
\<close>

fun inner_blocking_loop ::
  "peer \<Rightarrow> string set \<Rightarrow> string set \<Rightarrow> peer list \<Rightarrow> string set \<Rightarrow> int \<Rightarrow> int" where
  "inner_blocking_loop calling_node vs acs [] seen count = count"
| "inner_blocking_loop calling_node vs acs (p # rest) seen count =
     (if ident p = ident calling_node \<or> name p \<in> seen
      then inner_blocking_loop calling_node vs acs rest seen count
      else if name p \<in> vs \<or> name p \<in> acs
      then inner_blocking_loop calling_node vs acs rest (insert (name p) seen) (count + 1)
      else inner_blocking_loop calling_node vs acs rest seen count)"

definition check_inner_set_blocking_threshold :: "Node \<Rightarrow> Value \<Rightarrow> qitem list \<Rightarrow> py_error + int" where
  "check_inner_set_blocking_threshold calling_node val quorum =
     (let flat_peers = flatten quorum
      in case dict_get (statement_counter calling_node) (hash val) of
           None \<Rightarrow> Inl KeyError
         | Some entry \<Rightarrow>
             Inr (inner_blocking_loop (this calling_node) (voted entry) (accepted entry)
                    flat_peers {} 0))"

text \<open>
  \<^verbatim>\<open>Node.check_Blocking_threshold\<close>. The first loop reads
  \<^verbatim>\<open>self.statement_counter[val.hash]\<close> for every node that is not the node itself; the
  second loop calls the quorum-set helper for every element of the flattened inner sets.
\<close>

fun blocking_signed_loop ::
  "Node \<Rightarrow> Value \<Rightarrow> peer list \<Rightarrow> string set \<Rightarrow> int \<Rightarrow> py_error + int" where
  "blocking_signed_loop st val [] seen_signed signed_count = Inr signed_count"
| "blocking_signed_loop st val (p # rest) seen_signed signed_count =
     (if ident p = ident (this st) then blocking_signed_loop st val rest seen_signed signed_count
      else case dict_get (statement_counter st) (hash val) of
             None \<Rightarrow> Inl KeyError
           | Some entry \<Rightarrow>
               if (name p \<in> voted entry \<or> name p \<in> accepted entry) \<and> name p \<notin> seen_signed
               then blocking_signed_loop st val rest (insert (name p) seen_signed) (signed_count + 1)
               else blocking_signed_loop st val rest seen_signed signed_count)"

fun blocking_inner_loop :: "Node \<Rightarrow> Value \<Rightarrow> peer list \<Rightarrow> int \<Rightarrow> py_error + int" where
  "blocking_inner_loop st val [] inner_set_count = Inr inner_set_count"
| "blocking_inner_loop st val (raw_slice # rest) inner_set_count =
     (let flat_slice = flatten [QNode raw_slice]
      in case check_inner_set_blocking_threshold st val (map QNode flat_slice) of
           Inl e \<Rightarrow> Inl e
         | Inr c \<Rightarrow> blocking_inner_loop st val rest (inner_set_count + c))"

definition check_Blocking_threshold :: "Node \<Rightarrow> Value \<Rightarrow> py_error + bool" where
  "check_Blocking_threshold st val =
     (if \<not> Value_in val (voted (nomination_state st))
         \<and> \<not> Value_in val (accepted (nomination_state st)) then Inr False
      else (let (validators, inner) = get_quorum (quorum_set st);
                all_quorum_nodes = validators @ flatten (map QNode inner);
                unique_quorum_nodes = unique_ids {} all_quorum_nodes;
                n = int (length unique_quorum_nodes);
                k = minimum_quorum (quorum_set st)
            in if n = 0 then Inr False
               else case blocking_signed_loop st val unique_quorum_nodes {} 1 of
                      Inl e \<Rightarrow> Inl e
                    | Inr signed_count \<Rightarrow>
                        (case blocking_inner_loop st val inner 0 of
                           Inl e \<Rightarrow> Inl e
                         | Inr inner_set_count \<Rightarrow>
                             Inr (signed_count + inner_set_count > n - k))))"

section \<open>Priority list and nomination round\<close>

text \<open>\<^verbatim>\<open>s.add(p)\<close> for a Python set of nodes.\<close>

definition set_add :: "peer list \<Rightarrow> peer \<Rightarrow> peer list" where
  "set_add S p = (if Node_in p S then S else S @ [p])"

text \<open>
  \<^verbatim>\<open>Node.get_priority_list\<close>. \<open>G slot i round name\<close> stands for
  \<^verbatim>\<open>self.Gi([i, round, str(name)])\<close>, the SHA-256 of the XDR encoding read as an integer.
  Iterating an inner set that is a node and not a list raises \<^verbatim>\<open>TypeError\<close>.
\<close>

definition neighbor_test :: "(int \<Rightarrow> int \<Rightarrow> int \<Rightarrow> string \<Rightarrow> int) \<Rightarrow> Node \<Rightarrow> peer \<Rightarrow> py_error + bool" where
  "neighbor_test G st p =
     (case weight (quorum_set st) p of
        Inl e \<Rightarrow> Inl e
      | Inr w \<Rightarrow> Inr (of_int (G (slot st) 1 (nomination_round st) (name p))
                        < float_mul (float_of_int (2 ^ 256)) w))"

fun add_neighbors :: "(peer \<Rightarrow> py_error + bool) \<Rightarrow> peer list \<Rightarrow> peer list \<Rightarrow> py_error + peer list" where
  "add_neighbors test [] unique_nodes = Inr unique_nodes"
| "add_neighbors test (p # rest) unique_nodes =
     (case test p of
        Inl e \<Rightarrow> Inl e
      | Inr b \<Rightarrow> add_neighbors test rest (if b then set_add unique_nodes p else unique_nodes))"

fun inner_neighbors :: "(peer \<Rightarrow> py_error + bool) \<Rightarrow> qitem list \<Rightarrow> peer list \<Rightarrow> py_error + peer list" where
  "inner_neighbors test [] unique_nodes = Inr unique_nodes"
| "inner_neighbors test (QList xs # rest) unique_nodes =
     (case add_neighbors test (flatten xs) unique_nodes of
        Inl e \<Rightarrow> Inl e
      | Inr u \<Rightarrow> inner_neighbors test rest u)"
| "inner_neighbors test (QNode p # rest) unique_nodes = Inl TypeError"

definition get_priority_list ::
  "(int \<Rightarrow> int \<Rightarrow> int \<Rightarrow> string \<Rightarrow> int) \<Rightarrow> Node \<Rightarrow> py_error + (peer list \<times> Node)" where
  "get_priority_list G st =
     (let u0 = (if of_int (G (slot st) 1 (nomination_round st) (name (this st)))
                     < float_mul (float_of_int (2 ^ 256)) 1
                then set_add [] (this st) else [])
      in case add_neighbors (neighbor_test G st) (get_nodes (quorum_set st)) u0 of
           Inl e \<Rightarrow> Inl e
         | Inr u1 \<Rightarrow>
             (case inner_neighbors (neighbor_test G st) (get_inner_sets (quorum_set st)) u1 of
                Inl e \<Rightarrow> Inl e
              | Inr unique_nodes \<Rightarrow>
                  Inr (unique_nodes,
                       st\<lparr>priority_list := foldl set_add (priority_list st) unique_nodes\<rparr>)))"

text \<open>\<^verbatim>\<open>Node.check_update_nomination_round\<close>; \<open>now\<close> is \<^verbatim>\<open>Globals.simulation_time\<close>.\<close>

definition check_update_nomination_round ::
  "(int \<Rightarrow> int \<Rightarrow> int \<Rightarrow> string \<Rightarrow> int) \<Rightarrow> real \<Rightarrow> Node \<Rightarrow> py_error + Node" where
  "check_update_nomination_round G now st =
     (if now > float_add (last_nomination_start_time st) (float_of_int (nomination_round st))
      then (case get_priority_list G (st\<lparr>nomination_round := nomination_round st + 1\<rparr>) of
              Inl e \<Rightarrow> Inl e
            | Inr (unique_nodes, st') \<Rightarrow> Inr st')
      else Inr st)"

section \<open>Nomination: pruning, merging and the slot cap\<close>

text \<open>
  \<^verbatim>\<open>Node.get_finalized_transaction_ids\<close>: the hashes of all transactions of the ledger's
  externalize records.
\<close>

definition get_finalized_transaction_ids :: "Node \<Rightarrow> tx set" where
  "get_finalized_transaction_ids st =
     (\<Union>(s, ext_msg) \<in> set (ledger st). transactions (value (ballot ext_msg)))"

text \<open>
  The pruning loop of \<^verbatim>\<open>process_received_message\<close> and \<^verbatim>\<open>prepare_nomination_msg\<close>: every
  old value keeps its transactions that are not finalised, and is dropped when none is left.
\<close>

definition prune_values :: "(tx set \<Rightarrow> int) \<Rightarrow> tx set \<Rightarrow> Value list \<Rightarrow> Value list" where
  "prune_values hfs finalized vals =
     concat (map (\<lambda>old_val. let keep = Set.filter (\<lambda>t. t \<notin> finalized) (transactions old_val)
                             in if keep \<noteq> {} then [Value_new hfs keep] else []) vals)"

definition prune_nomination_state :: "(tx set \<Rightarrow> int) \<Rightarrow> tx set \<Rightarrow> Node \<Rightarrow> Node" where
  "prune_nomination_state hfs finalized st =
     st\<lparr>nomination_state :=
          \<lparr>voted = prune_values hfs finalized (voted (nomination_state st)),
           accepted = prune_values hfs finalized (accepted (nomination_state st)),
           confirmed = prune_values hfs finalized (confirmed (nomination_state st))\<rparr>\<rparr>"

text \<open>\<^verbatim>\<open>Node.update_local_nomination_broadcast\<close>\<close>

definition update_local_nomination_broadcast :: "Node \<Rightarrow> Node" where
  "update_local_nomination_broadcast st =
     (let voted_vals = voted (nomination_state st);
          accepted_vals = accepted (nomination_state st);
          confirmed_vals = confirmed (nomination_state st)
      in if voted_vals = [] \<and> accepted_vals = [] then st
         else st\<lparr>broadcast_flags :=
                   [\<lparr>voted = voted_vals, accepted = accepted_vals, confirmed = confirmed_vals\<rparr>]\<rparr>)"

text \<open>
  The merge of an incoming value into one nomination list in
  \<^verbatim>\<open>process_received_message\<close>: filter out finalised transactions, combine with the current
  list, sort by hash and cut at \<^verbatim>\<open>MAX_SLOT_TXS\<close>. \<open>None\<close> stands for a field of the
  message that is not a \<^verbatim>\<open>Value\<close>, and for an incoming value with nothing left.
\<close>

definition merge_incoming ::
  "(tx set \<Rightarrow> int) \<Rightarrow> nat \<Rightarrow> tx set \<Rightarrow> Value list \<Rightarrow> Value option \<Rightarrow> Value option" where
  "merge_incoming hfs max_slot_txs finalized_tx_ids current incoming =
     (case incoming of
        None \<Rightarrow> None
      | Some incoming_value \<Rightarrow>
          (let filtered = Set.filter (\<lambda>t. t \<notin> finalized_tx_ids) (transactions incoming_value)
           in if filtered \<noteq> {} then
                (let merged = combine hfs (current @ [Value_new hfs filtered]);
                     txs = sorted_list_of_set (transactions merged)
                 in if length txs > max_slot_txs
                    then Some (Value_new hfs (set (take max_slot_txs txs)))
                    else Some merged)
              else None))"

text \<open>
  \<^verbatim>\<open>Node.process_received_message\<close>; the message is the pair of the voted and the accepted
  field after \<^verbatim>\<open>parse_message_state\<close>.
\<close>

definition process_received_message ::
  "(tx set \<Rightarrow> int) \<Rightarrow> Value option \<times> Value option \<Rightarrow> Node \<Rightarrow> Node" where
  "process_received_message hfs message st =
     (let finalized_tx_ids = get_finalized_transaction_ids st;
          st1 = prune_nomination_state hfs finalized_tx_ids st;
          st2 = (case merge_incoming hfs (MAX_SLOT_TXS st1) finalized_tx_ids
                        (voted (nomination_state st1)) (fst message) of
                   None \<Rightarrow> st1
                 | Some merged \<Rightarrow> st1\<lparr>nomination_state := (nomination_state st1)\<lparr>voted := [merged]\<rparr>\<rparr>);
          st3 = (case merge_incoming hfs (MAX_SLOT_TXS st2) finalized_tx_ids
                        (accepted (nomination_state st2)) (snd message) of
                   None \<Rightarrow> st2
                 | Some merged \<Rightarrow> st2\<lparr>nomination_state := (nomination_state st2)\<lparr>accepted := [merged]\<rparr>\<rparr>)
      in update_local_nomination_broadcast st3)"

text \<open>\<^verbatim>\<open>Node.is_value_already_present\<close>\<close>

definition is_value_already_present :: "Node \<Rightarrow> Value \<Rightarrow> bool" where
  "is_value_already_present st new_value =
     (Value_in new_value (voted (nomination_state st))
      \<or> Value_in new_value (accepted (nomination_state st))
      \<or> Value_in new_value (confirmed (nomination_state st)))"

text \<open>
  \<^verbatim>\<open>Node.clean_prepare_and_commit_state\<close>; its local helper \<^verbatim>\<open>is_finalized\<close> holds for a
  value all of whose transactions are finalised.
\<close>

definition all_finalised :: "Node \<Rightarrow> Value \<Rightarrow> bool" where
  "all_finalised st v = (\<forall>t \<in> transactions v. t \<in> finalised_transactions st)"

definition clean_prepare_and_commit_state :: "Node \<Rightarrow> Node" where
  "clean_prepare_and_commit_state st =
     (let keep_ballot = (\<lambda>(val_hash, b). \<not> all_finalised st (value b))
      in st\<lparr>balloting_state :=
               \<lparr>voted = filter keep_ballot (voted (balloting_state st)),
                accepted = filter keep_ballot (accepted (balloting_state st)),
                confirmed = filter keep_ballot (confirmed (balloting_state st)),
                aborted = filter keep_ballot (aborted (balloting_state st))\<rparr>,
             ballot_statement_counter := filter (\<lambda>(val, counters). \<not> all_finalised st val) (ballot_statement_counter st),
             prepared_ballots := filter (\<lambda>(val, prep). \<not> all_finalised st val) (prepared_ballots st),
             commit_ballot_state :=
               \<lparr>voted = filter keep_ballot (voted (commit_ballot_state st)),
                accepted = filter keep_ballot (accepted (commit_ballot_state st)),
                confirmed = filter keep_ballot (confirmed (commit_ballot_state st))\<rparr>,
             commit_ballot_statement_counter :=
               filter (\<lambda>(val, counters). \<not> all_finalised st val)
                 (commit_ballot_statement_counter st),
             committed_ballots := filter (\<lambda>(val, cmt). \<not> all_finalised st val) (committed_ballots st)\<rparr>)"

text \<open>
  The first half of \<^verbatim>\<open>Node.prepare_nomination_msg\<close>: enqueue the unseen transactions of the
  mempool, collect the finalised transactions, clean the ballot phases, prune the nomination
  state and take up to \<^verbatim>\<open>MAX_SLOT_TXS\<close> transactions from the front of the queue.
\<close>

definition select_transactions :: "(tx set \<Rightarrow> int) \<Rightarrow> Node \<Rightarrow> tx list \<times> Node" where
  "select_transactions hfs st =
     (let all_tx = mempool st;
          queue = foldl (\<lambda>q t. if t \<notin> finalised_transactions st \<and> t \<notin> set q then q @ [t] else q)
                    (tx_queue st) all_tx;
          st1 = collect_finalised_transactions (st\<lparr>tx_queue := queue\<rparr>);
          st2 = clean_prepare_and_commit_state st1;
          st3 = prune_nomination_state hfs (finalised_transactions st2) st2;
          n = min (MAX_SLOT_TXS st3) (length (tx_queue st3))
      in (take n (tx_queue st3), st3\<lparr>tx_queue := drop n (tx_queue st3)\<rparr>))"

text \<open>
  \<^verbatim>\<open>Node.prepare_nomination_msg\<close>: the message returned (\<open>None\<close> for the two early
  returns) and the new state.
\<close>

definition prepare_nomination_msg :: "(tx set \<Rightarrow> int) \<Rightarrow> Node \<Rightarrow> SCPNominate option \<times> Node" where
  "prepare_nomination_msg hfs st =
     (let (to_nominate, st1) = select_transactions hfs st
      in if to_nominate = [] then (None, st1)
         else (let new_value = Value_new hfs (set to_nominate)
               in if is_value_already_present st1 new_value then (None, st1)
                  else (let new_voted =
                              (if voted (nomination_state st1) \<noteq> [] then
                                 (let existing = voted (nomination_state st1);
                                      combined = combine hfs (existing @ [new_value])
                                  in if card (transactions combined) > MAX_SLOT_TXS st1
                                     then Value_new hfs (set (take (MAX_SLOT_TXS st1)
                                            (sorted_list_of_set (transactions combined))))
                                     else combined)
                               else new_value);
                            st2 = st1\<lparr>nomination_state := (nomination_state st1)\<lparr>voted := [new_voted]\<rparr>\<rparr>;
                            message = nomination_state st2
                        in (Some message,
                            st2\<lparr>storage := storage st2 @ [message], broadcast_flags := [message]\<rparr>))))"

section \<open>Merged transactions and the cap\<close>

text \<open>
  The transactions a merge yields: those of the current values and the incoming ones, less
  the finalised; and the first \<open>m\<close> of a set of transactions in ascending order of hash.
\<close>

definition merged_transactions :: "tx set \<Rightarrow> Value list \<Rightarrow> tx set \<Rightarrow> tx set" where
  "merged_transactions finalized current incoming =
     ((\<Union>w \<in> set current. transactions w) \<union> incoming) - finalized"

definition first_sorted :: "nat \<Rightarrow> tx set \<Rightarrow> tx set" where
  "first_sorted m M = set (take m (sorted_list_of_set M))"

section \<open>The values held by the ballot phases\<close>

text \<open>Two values share a transaction.\<close>

definition shares_tx :: "Value \<Rightarrow> Value \<Rightarrow> bool" where
  "shares_tx v w = (\<exists>t \<in> transactions v. t \<in> transactions w)"

text \<open>
  The values of all commit-phase entries of a node: the ballots of the commit state, the keys
  of the commit statement counter, the commit broadcast flags and the commit messages
  received. Likewise for the prepare phase, with the keys of the prepared ballots.
\<close>

definition commit_phase_values :: "Node \<Rightarrow> Value set" where
  "commit_phase_values st =
     (\<lambda>(key, b). value b) ` (set (voted (commit_ballot_state st))
                              \<union> set (accepted (commit_ballot_state st))
                              \<union> set (confirmed (commit_ballot_state st)))
     \<union> fst ` set (commit_ballot_statement_counter st)
     \<union> (\<lambda>msg. value (ballot msg)) ` commit_ballot_broadcast_flags st
     \<union> (\<Union>(node_name, msgs) \<in> set (received_commit_ballot_broadcast_msgs st).
           (\<lambda>msg. value (ballot msg)) ` set msgs)"

definition prepare_phase_values :: "Node \<Rightarrow> Value set" where
  "prepare_phase_values st =
     (\<lambda>(key, b). value b) ` (set (voted (balloting_state st))
                              \<union> set (accepted (balloting_state st))
                              \<union> set (confirmed (balloting_state st))
                              \<union> set (aborted (balloting_state st)))
     \<union> fst ` set (ballot_statement_counter st)
     \<union> fst ` set (prepared_ballots st)
     \<union> (\<lambda>msg. value (ballot msg)) ` ballot_prepare_broadcast_flags st
     \<union> (\<Union>(node_name, msgs) \<in> set (received_prepare_broadcast_msgs st).
           (\<lambda>msg. value (ballot msg)) ` set msgs)"

section \<open>Example states\<close>

text \<open>
  A node N that has voted the value {1} in nomination, with the validators \<open>ps\<close>, the
  default threshold and no statement recorded yet.
\<close>

definition example_nominating_node :: "peer list \<Rightarrow> Node" where
  "example_nominating_node ps = (set_quorum (Node_init \<lparr>ident = 0, name = ''N''\<rparr>) ps [] None)
       \<lparr>nomination_state := \<lparr>voted = [Value_new example_hash {1}], accepted = [], confirmed = []\<rparr>\<rparr>"

text \<open>
  A node N whose commit ballot for the value {1, 2} is confirmed, while it has voted to
  prepare a ballot for the value {1, 3} and to commit a ballot for the value {4, 5}.
\<close>

definition example_finalising_node :: Node where
  "example_finalising_node =
     (Node_init \<lparr>ident = 0, name = ''N''\<rparr>)
       \<lparr>balloting_state :=
          \<lparr>voted = [(hash (Value_new example_hash {1, 3}),
                      \<lparr>counter = 1, value = Value_new example_hash {1, 3}\<rparr>)],
           accepted = [],
           confirmed = [(hash (Value_new example_hash {1, 2}),
                          \<lparr>counter = 1, value = Value_new example_hash {1, 2}\<rparr>)],
           aborted = []\<rparr>,
        commit_ballot_state :=
          \<lparr>voted = [(hash (Value_new example_hash {4, 5}),
                      \<lparr>counter = 1, value = Value_new example_hash {4, 5}\<rparr>)],
           accepted = [],
           confirmed = [(hash (Value_new example_hash {1, 2}),
                          \<lparr>counter = 1, value = Value_new example_hash {1, 2}\<rparr>)]\<rparr>\<rparr>"

text \<open>
  A node N that has voted a value of the transactions 1 to 200, with the transaction 201
  waiting in the mempool.
\<close>

definition example_merging_node :: Node where
  "example_merging_node =
     (Node_init \<lparr>ident = 0, name = ''N''\<rparr>)
       \<lparr>mempool := [201],
        nomination_state :=
          \<lparr>voted = [Value_new example_hash {1..200}], accepted = [], confirmed = []\<rparr>\<rparr>"

section \<open>Properties of values and node equality\<close>

lemma foldl_union_transactions:
  "foldl (\<lambda>acc v. acc \<union> transactions v) A vs = A \<union> (\<Union>v\<in>set vs. transactions v)"
  by (induction vs arbitrary: A) auto

lemma transactions_combine:
  "transactions (combine hfs vs) = (\<Union>v\<in>set vs. transactions v)"
  by (simp add: combine_def Value_new_def Value_init_def foldl_union_transactions)

text \<open>
  C8, as the code has it: two values built by the constructor are equal exactly when they
  hold the same transaction set and carry the same state tag.
\<close>

theorem Value_eq_iff_transactions_and_state:
  "Value_eq (Value_init hfs S s) (Value_init hfs T t) \<longleftrightarrow> S = T \<and> s = t"
  by (auto simp: Value_eq_def Value_init_def)

text \<open>
  C8 as stated fails: the same transaction set under two different state tags gives two
  values that are not equal.
\<close>

theorem Value_eq_same_transactions_counterexample:
  "transactions (Value_init example_hash {1} State_init)
     = transactions (Value_init example_hash {1} State_nominated)
   \<and> \<not> Value_eq (Value_init example_hash {1} State_init)
                (Value_init example_hash {1} State_nominated)"
  by (simp add: Value_eq_def Value_init_def)

text \<open>
  C9, as the code has it: combining the singleton list of a constructed value gives a value
  with the same transaction set and the same hash, which is equal to it exactly when its
  state tag is the default \<^verbatim>\<open>State.init\<close>.
\<close>

theorem combine_singleton:
  "transactions (combine hfs [Value_init hfs S s]) = transactions (Value_init hfs S s)
   \<and> hash (combine hfs [Value_init hfs S s]) = hash (Value_init hfs S s)
   \<and> (Value_eq (combine hfs [Value_init hfs S s]) (Value_init hfs S s) \<longleftrightarrow> s = State_init)"
  by (auto simp: Value_eq_def combine_def Value_new_def Value_init_def)

text \<open>C9 as stated fails for a value whose state tag is not the default.\<close>

theorem combine_singleton_counterexample:
  "\<not> Value_eq (combine example_hash [Value_init example_hash {1} State_nominated])
              (Value_init example_hash {1} State_nominated)"
  by (simp add: Value_eq_def combine_def Value_new_def Value_init_def)

text \<open>
  C10: equality of a node with any object is the comparison of its name with that object, so
  a node equals its bare name and any node object of the same name whatever its identity;
  its hash is the hash of the name; membership and counting in a list of nodes go by name.
\<close>

theorem Node_eq_by_name:
  "Node_eq n x = str_eq (name n) x
   \<and> Node_eq n (PStr s) = (name n = s)
   \<and> Node_eq n (PNode m) = (name n = name m)
   \<and> Node_eq n (PNode \<lparr>ident = i, name = name n\<rparr>)
   \<and> Node_hash hash_str n = hash_str (name n)
   \<and> Node_in n xs = (name n \<in> name ` set xs)
   \<and> Node_count xs n = length (filter (\<lambda>x. name x = name n) xs)"
proof -
  have same: "(x = n \<or> Node_eq x (PNode n)) = (name x = name n)" for x :: peer
    by (auto simp: Node_eq_def)
  have "Node_in n xs = (name n \<in> name ` set xs)"
    unfolding Node_in_def same list_ex_iff image_iff by metis
  moreover have "Node_count xs n = length (filter (\<lambda>x. name x = name n) xs)"
    unfolding Node_count_def same ..
  ultimately show ?thesis
    by (auto simp: Node_eq_def Node_hash_def)
qed

section \<open>Evaluating float arithmetic\<close>

lemma bit_length_nonpos: "n \<le> 0 \<Longrightarrow> bit_length n = 0"
  by (simp add: bit_length.simps)

lemma bit_length_pos: "0 < n \<Longrightarrow> bit_length n = 1 + bit_length (n div 2)"
  by (subst bit_length.simps) simp

lemmas round_double_eval = round_double_def ilog2_def pow2_def round_half_even_def Let_def
  bit_length_nonpos bit_length_pos

text \<open>\<^verbatim>\<open>55 / 100.0\<close> is the double just above 0.55.\<close>

lemma float_55_percent: "float_div (float_of_int 55) 100 = 2476979795053773 / 4503599627370496"
  by (simp add: float_div_def float_of_int_def round_double_eval)

lemma minimum_quorum_5: "\<lceil>float_mul (float_of_int 5) (2476979795053773 / 4503599627370496)\<rceil> = 3"
  by (simp add: float_mul_def float_of_int_def round_double_eval)

lemma minimum_quorum_100: "\<lceil>float_mul (float_of_int 100) (2476979795053773 / 4503599627370496)\<rceil> = 56"
  by (simp add: float_mul_def float_of_int_def round_double_eval)

lemma float_one_plus_one: "float_add 0 (float_of_int 1) = 1"
  by (simp add: float_add_def float_of_int_def round_double_eval)

section \<open>Quorum sets\<close>

text \<open>
  C4: under the default threshold of 55 a quorum set of size 5 has minimum quorum 3, as the
  claim says; a quorum set of size 100 has minimum quorum 56, although the ceiling of
  100 times 55/100 is 55: \<^verbatim>\<open>100 * (55 / 100.0)\<close> is the double just above 55.
\<close>

theorem minimum_quorum_default_threshold:
  "threshold qs = THRESHOLD_DEFAULT \<Longrightarrow>
     (QuorumSet_size qs = 5 \<longrightarrow> minimum_quorum qs = 3)
     \<and> (QuorumSet_size qs = 100 \<longrightarrow> minimum_quorum qs = 56 \<and> \<lceil>(100::real) * (55 / 100)\<rceil> = 55)"
  by (simp add: minimum_quorum_def THRESHOLD_DEFAULT_def float_55_percent
        minimum_quorum_5 minimum_quorum_100)

theorem minimum_quorum_default_threshold_witness:
  "minimum_quorum (QuorumSet_set (QuorumSet_init \<lparr>ident = 0, name = ''N''\<rparr>)
       (map (\<lambda>i. \<lparr>ident = Suc i, name = replicate (Suc i) (CHR ''v'')\<rparr>) [0..<5]) []) = 3
   \<and> QuorumSet_size (QuorumSet_set (QuorumSet_init \<lparr>ident = 0, name = ''N''\<rparr>)
       (map (\<lambda>i. \<lparr>ident = Suc i, name = replicate (Suc i) (CHR ''v'')\<rparr>) [0..<100]) []) = 100
   \<and> minimum_quorum (QuorumSet_set (QuorumSet_init \<lparr>ident = 0, name = ''N''\<rparr>)
       (map (\<lambda>i. \<lparr>ident = Suc i, name = replicate (Suc i) (CHR ''v'')\<rparr>) [0..<100]) []) = 56"
proof -
  let ?qs = "\<lambda>n. QuorumSet_set (QuorumSet_init \<lparr>ident = 0, name = ''N''\<rparr>)
       (map (\<lambda>i. \<lparr>ident = Suc i, name = replicate (Suc i) (CHR ''v'')\<rparr>) [0..<n]) []"
  have t: "threshold (?qs n) = THRESHOLD_DEFAULT" for n
    by (simp add: QuorumSet_set_def QuorumSet_init_def)
  have s: "QuorumSet_size (?qs n) = int n" for n
    by (simp add: QuorumSet_size_def QuorumSet_set_def QuorumSet_init_def)
  from minimum_quorum_default_threshold [OF t [of 5]] s [of 5]
  have "minimum_quorum (?qs 5) = 3"
    by simp
  moreover from minimum_quorum_default_threshold [OF t [of 100]] s [of 100]
  have "minimum_quorum (?qs 100) = 56"
    by simp
  ultimately show ?thesis
    using s [of 100] by simp
qed

text \<open>The test \<^verbatim>\<open>self == v\<close> of \<^verbatim>\<open>QuorumSet.weight\<close> is false for every node.\<close>

lemma py_eq_node_QuorumSet: "py_eq_node PQuorumSet v = False"
  by (simp add: Node_eq_def)

text \<open>
  C3: the weight of every node, the owner included, is the fraction of validator entries and
  inner sets that contain it (0 for a quorum set without slices); the branch meant to give
  the owner the weight 1 is never taken, and an owner that is in none of its slices, as in
  the quorum set of N with the validators A and B, has weight 0.
\<close>

theorem weight_of_owner:
  "weight qs v = Inr (if length (nodes qs) + length (inner_sets qs) = 0 then 0
                      else int_truediv (int (Node_count (nodes qs) v)
                                        + int (length (filter (inner_set_has v) (inner_sets qs))))
                                       (int (length (nodes qs)) + int (length (inner_sets qs))))
   \<and> weight (QuorumSet_set (QuorumSet_init \<lparr>ident = 0, name = ''N''\<rparr>)
              [\<lparr>ident = 1, name = ''A''\<rparr>, \<lparr>ident = 2, name = ''B''\<rparr>] [])
        \<lparr>ident = 0, name = ''N''\<rparr> = Inr 0"
  by (simp add: weight_def py_eq_node_QuorumSet Let_def QuorumSet_set_def QuorumSet_init_def
        Node_count_def Node_eq_def int_truediv_def round_double_def)

section \<open>Nomination rounds\<close>

lemma nomination_round_get_priority_list:
  "get_priority_list G st = Inr (u, st') \<Longrightarrow> nomination_round st' = nomination_round st"
  by (auto simp: get_priority_list_def Let_def split: sum.splits)

lemma get_priority_list_empty_quorum:
  "\<exists>u st'. get_priority_list G ((Node_init p)\<lparr>nomination_round := r\<rparr>) = Inr (u, st')"
  by (simp add: get_priority_list_def Let_def Node_init_def QuorumSet_init_def
        get_nodes_def get_inner_sets_def)

text \<open>
  C5: a fresh node (nomination started at time 0, round 1) that checks its round at time
  1.5 enters round 2, before the 2 seconds of round 1 are over; and a single check at time
  5 leaves it in round 2, not 3.
\<close>

theorem nomination_round_advances_after_one_second:
  "map_sum id nomination_round (check_update_nomination_round G (3 / 2) (Node_init p)) = Inr 2
   \<and> map_sum id nomination_round (check_update_nomination_round G 5 (Node_init p)) = Inr 2"
proof -
  obtain u st' where g: "get_priority_list G ((Node_init p)\<lparr>nomination_round := 2\<rparr>) = Inr (u, st')"
    using get_priority_list_empty_quorum by blast
  have r: "nomination_round st' = 2"
    using nomination_round_get_priority_list [OF g] by simp
  have "check_update_nomination_round G (3 / 2) (Node_init p) = Inr st'"
    and "check_update_nomination_round G 5 (Node_init p) = Inr st'"
    using g by (simp_all add: check_update_nomination_round_def Node_init_def float_one_plus_one)
  with r show ?thesis by simp
qed

section \<open>Externalize messages\<close>

text \<open>
  C7: an Externalize message for a slot that is already in the ledger, or for a slot other
  than the node's current slot, leaves the whole state of the node as it was.
\<close>

theorem process_externalize_msg_discards:
  "dict_has (ledger st) slot_number \<or> slot_number \<noteq> slot st \<Longrightarrow>
     process_externalize_msg now slot_number message sending_node st = st"
  by (auto simp: process_externalize_msg_def)

theorem process_externalize_msg_discards_witness:
  "(dict_has (ledger ((Node_init \<lparr>ident = 0, name = ''A''\<rparr>)
        \<lparr>ledger := [(1, \<lparr>ballot = \<lparr>counter = 1, value = Value_new example_hash {1, 2}\<rparr>,
                         hCounter = 1, timestamp = 3\<rparr>)], slot := 2\<rparr>)) 1
    \<or> 1 \<noteq> slot ((Node_init \<lparr>ident = 0, name = ''A''\<rparr>)
        \<lparr>ledger := [(1, \<lparr>ballot = \<lparr>counter = 1, value = Value_new example_hash {1, 2}\<rparr>,
                         hCounter = 1, timestamp = 3\<rparr>)], slot := 2\<rparr>))
   \<and> process_externalize_msg 4 1
        \<lparr>ballot = \<lparr>counter = 1, value = Value_new example_hash {1, 2}\<rparr>, hCounter = 1, timestamp = 3\<rparr>
        \<lparr>ident = 1, name = ''B''\<rparr>
        ((Node_init \<lparr>ident = 0, name = ''A''\<rparr>)
          \<lparr>ledger := [(1, \<lparr>ballot = \<lparr>counter = 1, value = Value_new example_hash {1, 2}\<rparr>,
                           hCounter = 1, timestamp = 3\<rparr>)], slot := 2\<rparr>)
      = (Node_init \<lparr>ident = 0, name = ''A''\<rparr>)
          \<lparr>ledger := [(1, \<lparr>ballot = \<lparr>counter = 1, value = Value_new example_hash {1, 2}\<rparr>,
                           hCounter = 1, timestamp = 3\<rparr>)], slot := 2\<rparr>"
proof -
  let ?st = "(Node_init \<lparr>ident = 0, name = ''A''\<rparr>)
        \<lparr>ledger := [(1, \<lparr>ballot = \<lparr>counter = 1, value = Value_new example_hash {1, 2}\<rparr>,
                         hCounter = 1, timestamp = 3\<rparr>)], slot := 2\<rparr>"
  have h: "dict_has (ledger ?st) 1 \<or> 1 \<noteq> slot ?st"
    by (simp add: Node_init_def)
  from h process_externalize_msg_discards [OF h] show ?thesis
    by blast
qed

section \<open>Threshold checks for a value without counter entry\<close>

lemma count_ident_unique_ids:
  "length (filter (\<lambda>p. ident p = i) (unique_ids S xs))
     = (if i \<in> S then 0 else if i \<in> ident ` set xs then 1 else 0)"
proof (induction xs arbitrary: S)
  case Nil
  show ?case by simp
next
  case (Cons a xs)
  show ?case
  proof (cases "ident a \<in> S")
    case True
    then show ?thesis using Cons.IH [of S] by auto
  next
    case False
    then show ?thesis using Cons.IH [of "insert (ident a) S"] by auto
  qed
qed

lemma minimum_quorum_1: "\<lceil>float_mul (float_of_int 1) (2476979795053773 / 4503599627370496)\<rceil> = 1"
  by (simp add: float_mul_def float_of_int_def round_double_eval)

lemma minimum_quorum_2: "\<lceil>float_mul (float_of_int 2) (2476979795053773 / 4503599627370496)\<rceil> = 2"
  by (simp add: float_mul_def float_of_int_def round_double_eval)

text \<open>
  C2, as the code has it: for a value without an entry in the statement counter,
  \<^verbatim>\<open>check_Quorum_threshold\<close> returns without raising, and returns true exactly when the
  value is in the node's own voted or accepted list and the minimum quorum is at most 1 (the
  node's own signature is the only one counted); \<^verbatim>\<open>check_Blocking_threshold\<close> returns
  false when the value is in neither list.
\<close>

theorem check_Quorum_threshold_unknown_value:
  "dict_get (statement_counter st) (hash val) = None \<Longrightarrow>
     check_Quorum_threshold st val
       = ((Value_in val (voted (nomination_state st)) \<or> Value_in val (accepted (nomination_state st)))
          \<and> minimum_quorum (quorum_set st) \<le> 1)
     \<and> (\<not> Value_in val (voted (nomination_state st))
          \<and> \<not> Value_in val (accepted (nomination_state st))
         \<longrightarrow> check_Blocking_threshold st val = Inr False)"
  by (auto simp: check_Quorum_threshold_def check_Blocking_threshold_def Let_def
        count_ident_unique_ids)

text \<open>
  C2 as stated fails: with the single validator A and the default threshold the minimum
  quorum is 1, so for the voted value {1}, which has no counter entry, the quorum check
  returns true; and the blocking check raises \<^verbatim>\<open>KeyError\<close> at
  \<^verbatim>\<open>self.statement_counter[val.hash]\<close>.
\<close>

theorem threshold_unknown_value_counterexample:
  "dict_get (statement_counter (example_nominating_node [\<lparr>ident = 1, name = ''A''\<rparr>]))
       (hash (Value_new example_hash {1})) = None
   \<and> check_Quorum_threshold (example_nominating_node [\<lparr>ident = 1, name = ''A''\<rparr>]) (Value_new example_hash {1}) = True
   \<and> check_Blocking_threshold (example_nominating_node [\<lparr>ident = 1, name = ''A''\<rparr>]) (Value_new example_hash {1})
       = Inl KeyError"
  by (simp add: example_nominating_node_def set_quorum_def Node_init_def QuorumSet_init_def QuorumSet_set_def
        check_Quorum_threshold_def check_Blocking_threshold_def Let_def dict_get_def
        Value_in_def Value_eq_def get_nodes_def get_inner_sets_def get_quorum_def
        minimum_quorum_def QuorumSet_size_def THRESHOLD_DEFAULT_def float_55_percent
        minimum_quorum_1)

theorem check_Quorum_threshold_unknown_value_witness:
  "dict_get (statement_counter (example_nominating_node [\<lparr>ident = 1, name = ''A''\<rparr>, \<lparr>ident = 2, name = ''B''\<rparr>]))
       (hash (Value_new example_hash {1})) = None
   \<and> check_Quorum_threshold (example_nominating_node [\<lparr>ident = 1, name = ''A''\<rparr>, \<lparr>ident = 2, name = ''B''\<rparr>])
        (Value_new example_hash {1}) = False"
proof -
  let ?st = "example_nominating_node [\<lparr>ident = 1, name = ''A''\<rparr>, \<lparr>ident = 2, name = ''B''\<rparr>]"
  have h: "dict_get (statement_counter ?st) (hash (Value_new example_hash {1})) = None"
    by (simp add: example_nominating_node_def set_quorum_def Node_init_def dict_get_def)
  have m: "minimum_quorum (quorum_set ?st) = 2"
    by (simp add: example_nominating_node_def set_quorum_def Node_init_def QuorumSet_init_def QuorumSet_set_def
          minimum_quorum_def QuorumSet_size_def THRESHOLD_DEFAULT_def float_55_percent
          minimum_quorum_2)
  from check_Quorum_threshold_unknown_value [OF h] m h show ?thesis
    by simp
qed

section \<open>The purge at finalisation\<close>

lemma commit_phase_values_reset_commit:
  "v \<in> commit_phase_values (reset_commit_phase_state st b) \<Longrightarrow> \<not> shares_tx v (value b)"
  by (auto simp: commit_phase_values_def reset_commit_phase_state_def Let_def shares_tx_def
        ballot_contains_finalized_tx_def value_contains_finalized_tx_def)

lemma prepare_phase_values_reset_prepare:
  "v \<in> prepare_phase_values (reset_prepare_ballot_phase st b) \<Longrightarrow> hash v \<noteq> hash (value b)"
  by (auto simp: prepare_phase_values_def reset_prepare_ballot_phase_def Let_def)

lemma commit_phase_values_reset_prepare:
  "commit_phase_values (reset_prepare_ballot_phase st b) = commit_phase_values st"
  by (simp add: commit_phase_values_def reset_prepare_ballot_phase_def Let_def)

lemma commit_phase_values_remove_txs:
  "commit_phase_values (remove_txs_from_mempool st v) = commit_phase_values st"
  by (simp add: commit_phase_values_def remove_txs_from_mempool_def
        collect_finalised_transactions_def Let_def)

lemma prepare_phase_values_remove_txs:
  "prepare_phase_values (remove_txs_from_mempool st v) = prepare_phase_values st"
  by (simp add: prepare_phase_values_def remove_txs_from_mempool_def
        collect_finalised_transactions_def Let_def)

lemma commit_phase_values_slot:
  "commit_phase_values (st\<lparr>slot := s\<rparr>) = commit_phase_values st"
  "commit_phase_values (st\<lparr>slot := s, nomination_round := r\<rparr>) = commit_phase_values st"
  by (simp_all add: commit_phase_values_def)

lemma prepare_phase_values_slot:
  "prepare_phase_values (st\<lparr>slot := s\<rparr>) = prepare_phase_values st"
  "prepare_phase_values (st\<lparr>slot := s, nomination_round := r\<rparr>) = prepare_phase_values st"
  by (simp_all add: prepare_phase_values_def)

lemma committed_ballots_finalise:
  "committed_ballots (remove_txs_from_mempool (reset_prepare_ballot_phase (reset_commit_phase_state st b) b') v)
     = committed_ballots st"
  by (simp add: remove_txs_from_mempool_def collect_finalised_transactions_def Let_def
        reset_prepare_ballot_phase_def reset_commit_phase_state_def)

text \<open>
  C1, as the code has it: after \<^verbatim>\<open>prepare_Externalize_msg\<close> has externalised the ballot b,
  and after \<^verbatim>\<open>process_externalize_msg\<close> has adopted it, no commit-phase entry is left whose
  value shares a transaction with the value of b, no prepare-phase entry is left whose value
  has the hash of the value of b, and the committed-ballot records are as they were.
\<close>

theorem externalize_purges:
  "(retrieve_confirmed_commit_ballot i st = Some b \<longrightarrow>
      (\<forall>v \<in> commit_phase_values (prepare_Externalize_msg now i st). \<not> shares_tx v (value b))
      \<and> (\<forall>v \<in> prepare_phase_values (prepare_Externalize_msg now i st). hash v \<noteq> hash (value b))
      \<and> committed_ballots (prepare_Externalize_msg now i st) = committed_ballots st)
   \<and> (\<not> dict_has (ledger st) s \<and> s = slot st \<longrightarrow>
      (\<forall>v \<in> commit_phase_values (process_externalize_msg now s msg sender st).
          \<not> shares_tx v (value (ballot msg)))
      \<and> (\<forall>v \<in> prepare_phase_values (process_externalize_msg now s msg sender st).
          hash v \<noteq> hash (value (ballot msg)))
      \<and> committed_ballots (process_externalize_msg now s msg sender st) = committed_ballots st)"
proof (intro conjI impI ballI)
  assume r: "retrieve_confirmed_commit_ballot i st = Some b"
  then have ne: "length (confirmed (commit_ballot_state st)) \<noteq> 0"
    by (auto simp: retrieve_confirmed_commit_ballot_def Let_def split: if_splits)
  let ?m = "\<lparr>ballot = b, hCounter = counter b, timestamp = now\<rparr>"
  let ?st2 = "(reset_nomination_state
                (st\<lparr>ledger := add_slot (ledger st) (slot st) ?m,
                    externalize_broadcast_flags := insert (slot st, ?m) (externalize_broadcast_flags st),
                    externalized_slot_counter := insert ?m (externalized_slot_counter st)\<rparr>))
              \<lparr>priority_list := [], last_nomination_start_time := now\<rparr>"
  let ?st5 = "remove_txs_from_mempool (reset_prepare_ballot_phase (reset_commit_phase_state ?st2 b) b) (value b)"
  have eq: "prepare_Externalize_msg now i st = ?st5\<lparr>slot := slot ?st5 + 1, nomination_round := 1\<rparr>"
    using r ne by (simp add: prepare_Externalize_msg_def Let_def)
  { fix v assume "v \<in> commit_phase_values (prepare_Externalize_msg now i st)"
    then have "v \<in> commit_phase_values (reset_commit_phase_state ?st2 b)"
      by (simp only: eq commit_phase_values_slot commit_phase_values_remove_txs
            commit_phase_values_reset_prepare)
    then show "\<not> shares_tx v (value b)" by (rule commit_phase_values_reset_commit) }
  { fix v assume "v \<in> prepare_phase_values (prepare_Externalize_msg now i st)"
    then have "v \<in> prepare_phase_values (reset_prepare_ballot_phase (reset_commit_phase_state ?st2 b) b)"
      by (simp only: eq prepare_phase_values_slot prepare_phase_values_remove_txs)
    then show "hash v \<noteq> hash (value b)" by (rule prepare_phase_values_reset_prepare) }
  show "committed_ballots (prepare_Externalize_msg now i st) = committed_ballots st"
    by (simp add: eq committed_ballots_finalise reset_nomination_state_def)
next
  assume a: "\<not> dict_has (ledger st) s \<and> s = slot st"
  let ?st2 = "(reset_nomination_state
                (st\<lparr>ledger := add_slot (ledger st) s msg,
                    peer_externalised_statements :=
                      record_statement (peer_externalised_statements st) (name sender) (s, msg),
                    externalize_broadcast_flags := insert (s, msg) (externalize_broadcast_flags st),
                    externalized_slot_counter := insert msg (externalized_slot_counter st),
                    nomination_round := 1\<rparr>))
              \<lparr>last_nomination_start_time := now\<rparr>"
  let ?st5 = "remove_txs_from_mempool (reset_prepare_ballot_phase
                (reset_commit_phase_state ?st2 (ballot msg)) (ballot msg)) (value (ballot msg))"
  have eq: "process_externalize_msg now s msg sender st = ?st5\<lparr>slot := slot ?st5 + 1\<rparr>"
  proof -
    from a have "\<not> dict_has (ledger st) (slot st)" and "s = slot st" by auto
    then show ?thesis by (simp add: process_externalize_msg_def Let_def)
  qed
  { fix v assume "v \<in> commit_phase_values (process_externalize_msg now s msg sender st)"
    then have "v \<in> commit_phase_values (reset_commit_phase_state ?st2 (ballot msg))"
      by (simp only: eq commit_phase_values_slot commit_phase_values_remove_txs
            commit_phase_values_reset_prepare)
    then show "\<not> shares_tx v (value (ballot msg))" by (rule commit_phase_values_reset_commit) }
  { fix v assume "v \<in> prepare_phase_values (process_externalize_msg now s msg sender st)"
    then have "v \<in> prepare_phase_values (reset_prepare_ballot_phase
                  (reset_commit_phase_state ?st2 (ballot msg)) (ballot msg))"
      by (simp only: eq prepare_phase_values_slot prepare_phase_values_remove_txs)
    then show "hash v \<noteq> hash (value (ballot msg))" by (rule prepare_phase_values_reset_prepare) }
  show "committed_ballots (process_externalize_msg now s msg sender st) = committed_ballots st"
    by (simp add: eq committed_ballots_finalise reset_nomination_state_def)
qed

lemmas example_eval = example_finalising_node_def Node_init_def QuorumSet_init_def
  retrieve_confirmed_commit_ballot_def prepare_Externalize_msg_def process_externalize_msg_def
  reset_nomination_state_def reset_commit_phase_state_def reset_prepare_ballot_phase_def
  remove_txs_from_mempool_def collect_finalised_transactions_def add_slot_def dict_has_def
  dict_get_def Let_def Value_new_def Value_init_def example_hash_def
  ballot_contains_finalized_tx_def value_contains_finalized_tx_def

lemma example_retrieve:
  "retrieve_confirmed_commit_ballot 0 example_finalising_node
     = Some \<lparr>counter = 1, value = Value_new example_hash {1, 2}\<rparr>"
  by (simp add: example_eval)

lemma example_prepare_remains:
  "Value_new example_hash {1, 3}
     \<in> prepare_phase_values (prepare_Externalize_msg 5 0 example_finalising_node)"
  by (simp add: example_eval prepare_phase_values_def)

lemma example_prepare_remains_adopt:
  "Value_new example_hash {1, 3}
     \<in> prepare_phase_values (process_externalize_msg 5 1
          \<lparr>ballot = \<lparr>counter = 1, value = Value_new example_hash {1, 2}\<rparr>, hCounter = 1, timestamp = 4\<rparr>
          \<lparr>ident = 1, name = ''B''\<rparr> example_finalising_node)"
  by (simp add: example_eval prepare_phase_values_def)

lemma example_commit_remains:
  "Value_new example_hash {4, 5}
     \<in> commit_phase_values (prepare_Externalize_msg 5 0 example_finalising_node)"
  by (simp add: example_eval commit_phase_values_def)

text \<open>
  C1 as stated fails: after the ballot for {1, 2} is externalised, or adopted from a peer,
  the voted prepare ballot for {1, 3} is still in the balloting state, and it shares the
  transaction 1 with the externalised value.
\<close>

theorem externalize_purges_counterexample:
  "retrieve_confirmed_commit_ballot 0 example_finalising_node
     = Some \<lparr>counter = 1, value = Value_new example_hash {1, 2}\<rparr>
   \<and> Value_new example_hash {1, 3}
       \<in> prepare_phase_values (prepare_Externalize_msg 5 0 example_finalising_node)
   \<and> Value_new example_hash {1, 3}
       \<in> prepare_phase_values (process_externalize_msg 5 1
          \<lparr>ballot = \<lparr>counter = 1, value = Value_new example_hash {1, 2}\<rparr>, hCounter = 1, timestamp = 4\<rparr>
          \<lparr>ident = 1, name = ''B''\<rparr> example_finalising_node)
   \<and> shares_tx (Value_new example_hash {1, 3}) (Value_new example_hash {1, 2})"
proof -
  have "shares_tx (Value_new example_hash {1, 3}) (Value_new example_hash {1, 2})"
    by (simp add: shares_tx_def Value_new_def Value_init_def)
  with example_retrieve example_prepare_remains example_prepare_remains_adopt
  show ?thesis by blast
qed

lemma example_commit_remains_adopt:
  "Value_new example_hash {4, 5}
     \<in> commit_phase_values (process_externalize_msg 5 1
          \<lparr>ballot = \<lparr>counter = 1, value = Value_new example_hash {1, 2}\<rparr>, hCounter = 1, timestamp = 4\<rparr>
          \<lparr>ident = 1, name = ''B''\<rparr> example_finalising_node)"
  by (simp add: example_eval commit_phase_values_def)

lemma example_adoptable:
  "\<not> dict_has (ledger example_finalising_node) 1 \<and> 1 = slot example_finalising_node"
  by (simp add: example_eval)

theorem externalize_purges_witness:
  "retrieve_confirmed_commit_ballot 0 example_finalising_node
     = Some \<lparr>counter = 1, value = Value_new example_hash {1, 2}\<rparr>
   \<and> Value_new example_hash {4, 5}
       \<in> commit_phase_values (prepare_Externalize_msg 5 0 example_finalising_node)
   \<and> \<not> shares_tx (Value_new example_hash {4, 5}) (Value_new example_hash {1, 2})
   \<and> Value_new example_hash {1, 3}
       \<in> prepare_phase_values (prepare_Externalize_msg 5 0 example_finalising_node)
   \<and> hash (Value_new example_hash {1, 3}) \<noteq> hash (Value_new example_hash {1, 2})
   \<and> Value_new example_hash {1, 2}
       \<notin> prepare_phase_values (prepare_Externalize_msg 5 0 example_finalising_node)
   \<and> \<not> dict_has (ledger example_finalising_node) 1 \<and> 1 = slot example_finalising_node
   \<and> Value_new example_hash {4, 5}
       \<in> commit_phase_values (process_externalize_msg 5 1
          \<lparr>ballot = \<lparr>counter = 1, value = Value_new example_hash {1, 2}\<rparr>, hCounter = 1, timestamp = 4\<rparr>
          \<lparr>ident = 1, name = ''B''\<rparr> example_finalising_node)
   \<and> Value_new example_hash {1, 2}
       \<notin> prepare_phase_values (process_externalize_msg 5 1
          \<lparr>ballot = \<lparr>counter = 1, value = Value_new example_hash {1, 2}\<rparr>, hCounter = 1, timestamp = 4\<rparr>
          \<lparr>ident = 1, name = ''B''\<rparr> example_finalising_node)"
proof -
  let ?b = "\<lparr>counter = 1, value = Value_new example_hash {1, 2}\<rparr>"
  let ?m = "\<lparr>ballot = ?b, hCounter = 1, timestamp = 4\<rparr>"
  let ?B = "\<lparr>ident = 1, name = ''B''\<rparr>"
  have r: "retrieve_confirmed_commit_ballot 0 example_finalising_node = Some ?b"
    by (rule example_retrieve)
  from externalize_purges [of 0 example_finalising_node ?b 5] r
  have c: "\<forall>v \<in> commit_phase_values (prepare_Externalize_msg 5 0 example_finalising_node).
             \<not> shares_tx v (Value_new example_hash {1, 2})"
    and p: "\<forall>v \<in> prepare_phase_values (prepare_Externalize_msg 5 0 example_finalising_node).
             hash v \<noteq> hash (Value_new example_hash {1, 2})"
    by simp_all
  from externalize_purges [of 0 example_finalising_node ?b 5 1 ?m ?B] example_adoptable
  have p': "\<forall>v \<in> prepare_phase_values (process_externalize_msg 5 1 ?m ?B example_finalising_node).
             hash v \<noteq> hash (Value_new example_hash {1, 2})"
    by simp
  from c example_commit_remains
  have "\<not> shares_tx (Value_new example_hash {4, 5}) (Value_new example_hash {1, 2})"
    by blast
  moreover from p example_prepare_remains
  have "hash (Value_new example_hash {1, 3}) \<noteq> hash (Value_new example_hash {1, 2})"
    by blast
  moreover from p
  have "Value_new example_hash {1, 2}
          \<notin> prepare_phase_values (prepare_Externalize_msg 5 0 example_finalising_node)"
    by blast
  moreover from p'
  have "Value_new example_hash {1, 2}
          \<notin> prepare_phase_values (process_externalize_msg 5 1 ?m ?B example_finalising_node)"
    by blast
  ultimately show ?thesis
    using r example_commit_remains example_prepare_remains example_commit_remains_adopt
      example_adoptable by blast
qed

section \<open>The cap on merged nomination values\<close>

lemma transactions_prune_values:
  "(\<Union>w \<in> set (prune_values hfs F vals). transactions w) = (\<Union>w \<in> set vals. transactions w) - F"
  by (induction vals) (auto simp: prune_values_def Let_def Value_new_def Value_init_def)

lemma card_first_sorted:
  assumes "m < card M"
  shows "card (first_sorted m M) = m"
proof -
  have "distinct (take m (sorted_list_of_set M))"
    by (simp add: distinct_take)
  then have "card (first_sorted m M) = length (take m (sorted_list_of_set M))"
    unfolding first_sorted_def by (rule distinct_card)
  also have "\<dots> = m"
    using assms by simp
  finally show ?thesis .
qed

lemma merge_incoming_capped:
  assumes ne: "Set.filter (\<lambda>t. t \<notin> F) (transactions v) \<noteq> {}"
    and gt: "m < card ((\<Union>w \<in> set current. transactions w) \<union> Set.filter (\<lambda>t. t \<notin> F) (transactions v))"
  shows "merge_incoming hfs m F current (Some v)
           = Some (Value_new hfs (first_sorted m
               ((\<Union>w \<in> set current. transactions w) \<union> Set.filter (\<lambda>t. t \<notin> F) (transactions v))))"
proof -
  let ?fl = "Set.filter (\<lambda>t. t \<notin> F) (transactions v)"
  let ?M = "(\<Union>w \<in> set current. transactions w) \<union> ?fl"
  have tm: "transactions (combine hfs (current @ [Value_new hfs ?fl])) = ?M"
    by (auto simp: transactions_combine Value_new_def Value_init_def)
  have len: "length (sorted_list_of_set ?M) = card ?M"
    by simp
  have "merge_incoming hfs m F current (Some v)
          = (if length (sorted_list_of_set ?M) > m
             then Some (Value_new hfs (set (take m (sorted_list_of_set ?M))))
             else Some (combine hfs (current @ [Value_new hfs ?fl])))"
    using ne by (simp only: merge_incoming_def option.case Let_def tm, simp)
  also have "\<dots> = Some (Value_new hfs (first_sorted m ?M))"
    unfolding len first_sorted_def using gt by simp
  finally show ?thesis .
qed

lemma merge_incoming_pruned:
  assumes "transactions v - F \<noteq> {}"
    and "m < card (merged_transactions F current (transactions v))"
  shows "merge_incoming hfs m F (prune_values hfs F current) (Some v)
           = Some (Value_new hfs (first_sorted m (merged_transactions F current (transactions v))))"
proof -
  have fl: "Set.filter (\<lambda>t. t \<notin> F) (transactions v) = transactions v - F"
    by auto
  have M: "(\<Union>w \<in> set (prune_values hfs F current). transactions w) \<union> (transactions v - F)
           = merged_transactions F current (transactions v)"
    unfolding transactions_prune_values merged_transactions_def by blast
  show ?thesis
    using merge_incoming_capped [of F v m "prune_values hfs F current" hfs] assms
    unfolding fl M by simp
qed

lemma nomination_state_update_local_nomination_broadcast:
  "nomination_state (update_local_nomination_broadcast st) = nomination_state st"
  by (simp add: update_local_nomination_broadcast_def Let_def)

lemma received_voted_capped:
  assumes "transactions v - get_finalized_transaction_ids st \<noteq> {}"
    and "MAX_SLOT_TXS st < card (merged_transactions (get_finalized_transaction_ids st)
           (voted (nomination_state st)) (transactions v))"
  shows "voted (nomination_state (process_received_message hfs (Some v, a) st))
           = [Value_new hfs (first_sorted (MAX_SLOT_TXS st)
                (merged_transactions (get_finalized_transaction_ids st)
                   (voted (nomination_state st)) (transactions v)))]"
  using merge_incoming_pruned [OF assms, of hfs]
  by (simp add: process_received_message_def Let_def prune_nomination_state_def
        nomination_state_update_local_nomination_broadcast split: option.splits)

lemma received_accepted_capped:
  assumes "transactions v - get_finalized_transaction_ids st \<noteq> {}"
    and "MAX_SLOT_TXS st < card (merged_transactions (get_finalized_transaction_ids st)
           (accepted (nomination_state st)) (transactions v))"
  shows "accepted (nomination_state (process_received_message hfs (vo, Some v) st))
           = [Value_new hfs (first_sorted (MAX_SLOT_TXS st)
                (merged_transactions (get_finalized_transaction_ids st)
                   (accepted (nomination_state st)) (transactions v)))]"
  using merge_incoming_pruned [OF assms, of hfs]
  by (simp add: process_received_message_def Let_def prune_nomination_state_def
        nomination_state_update_local_nomination_broadcast split: option.splits)

lemma prepare_nomination_capped:
  assumes sel: "select_transactions hfs st = (to_nominate, st1)"
    and ne: "to_nominate \<noteq> []"
    and fresh: "\<not> is_value_already_present st1 (Value_new hfs (set to_nominate))"
    and ex: "voted (nomination_state st1) \<noteq> []"
    and gt: "MAX_SLOT_TXS st1 < card (merged_transactions {} (voted (nomination_state st1)) (set to_nominate))"
  shows "voted (nomination_state (snd (prepare_nomination_msg hfs st)))
           = [Value_new hfs (first_sorted (MAX_SLOT_TXS st1)
                (merged_transactions {} (voted (nomination_state st1)) (set to_nominate)))]"
proof -
  let ?M = "merged_transactions {} (voted (nomination_state st1)) (set to_nominate)"
  have tm: "transactions (combine hfs (voted (nomination_state st1) @ [Value_new hfs (set to_nominate)]))
              = ?M"
    by (auto simp: transactions_combine Value_new_def Value_init_def merged_transactions_def)
  show ?thesis
    using ne fresh ex gt
    by (simp add: prepare_nomination_msg_def sel Let_def tm first_sorted_def)
qed

text \<open>
  C6: whenever the merge of an incoming voted or accepted value in
  \<^verbatim>\<open>process_received_message\<close>, or of the new value in \<^verbatim>\<open>prepare_nomination_msg\<close>, yields
  more than \<^verbatim>\<open>MAX_SLOT_TXS\<close> transactions, the list stored holds one value, built from
  exactly \<^verbatim>\<open>MAX_SLOT_TXS\<close> transactions: the first ones in ascending order of hash. The
  witness is at \<^verbatim>\<open>MAX_SLOT_TXS = 200\<close> with 201 merged transactions.
\<close>

theorem merge_capped_at_MAX_SLOT_TXS:
  "(transactions v - get_finalized_transaction_ids st \<noteq> {}
      \<and> MAX_SLOT_TXS st < card (merged_transactions (get_finalized_transaction_ids st)
            (voted (nomination_state st)) (transactions v))
    \<longrightarrow> voted (nomination_state (process_received_message hfs (Some v, a) st))
          = [Value_new hfs (first_sorted (MAX_SLOT_TXS st)
               (merged_transactions (get_finalized_transaction_ids st)
                  (voted (nomination_state st)) (transactions v)))]
        \<and> card (first_sorted (MAX_SLOT_TXS st)
               (merged_transactions (get_finalized_transaction_ids st)
                  (voted (nomination_state st)) (transactions v))) = MAX_SLOT_TXS st)
   \<and> (transactions v - get_finalized_transaction_ids st \<noteq> {}
      \<and> MAX_SLOT_TXS st < card (merged_transactions (get_finalized_transaction_ids st)
            (accepted (nomination_state st)) (transactions v))
    \<longrightarrow> accepted (nomination_state (process_received_message hfs (vo, Some v) st))
          = [Value_new hfs (first_sorted (MAX_SLOT_TXS st)
               (merged_transactions (get_finalized_transaction_ids st)
                  (accepted (nomination_state st)) (transactions v)))]
        \<and> card (first_sorted (MAX_SLOT_TXS st)
               (merged_transactions (get_finalized_transaction_ids st)
                  (accepted (nomination_state st)) (transactions v))) = MAX_SLOT_TXS st)
   \<and> (select_transactions hfs st = (to_nominate, st1) \<and> to_nominate \<noteq> []
      \<and> \<not> is_value_already_present st1 (Value_new hfs (set to_nominate))
      \<and> voted (nomination_state st1) \<noteq> []
      \<and> MAX_SLOT_TXS st1 < card (merged_transactions {} (voted (nomination_state st1))
            (set to_nominate))
    \<longrightarrow> voted (nomination_state (snd (prepare_nomination_msg hfs st)))
          = [Value_new hfs (first_sorted (MAX_SLOT_TXS st1)
               (merged_transactions {} (voted (nomination_state st1)) (set to_nominate)))]
        \<and> card (first_sorted (MAX_SLOT_TXS st1)
               (merged_transactions {} (voted (nomination_state st1)) (set to_nominate)))
            = MAX_SLOT_TXS st1)"
  using received_voted_capped [of v st hfs a] received_accepted_capped [of v st hfs vo]
    prepare_nomination_capped [of hfs st to_nominate st1] card_first_sorted
  by blast

lemma transactions_Value_new: "transactions (Value_new hfs S) = S"
  by (simp add: Value_new_def Value_init_def)

lemma Node_init_nomination:
  "voted (nomination_state (Node_init p)) = []"
  "accepted (nomination_state (Node_init p)) = []"
  "MAX_SLOT_TXS (Node_init p) = 200"
  "get_finalized_transaction_ids (Node_init p) = {}"
  by (simp_all add: Node_init_def get_finalized_transaction_ids_def)

lemma prune_values_nothing_finalised:
  "prune_values hfs {} [] = []"
  "prune_values hfs {} [w] = (if transactions w \<noteq> {} then [Value_new hfs (transactions w)] else [])"
  by (simp_all add: prune_values_def Let_def)

lemma example_prune:
  "prune_values example_hash {} [Value_new example_hash {1..200}] = [Value_new example_hash {1..200}]"
  by (simp add: prune_values_nothing_finalised transactions_Value_new)

lemma example_select:
  "fst (select_transactions example_hash example_merging_node) = [201]"
  "nomination_state (snd (select_transactions example_hash example_merging_node))
     = \<lparr>voted = [Value_new example_hash {1..200}], accepted = [], confirmed = []\<rparr>"
  "MAX_SLOT_TXS (snd (select_transactions example_hash example_merging_node)) = 200"
  by (simp_all add: select_transactions_def example_merging_node_def Node_init_def Let_def
        collect_finalised_transactions_def clean_prepare_and_commit_state_def
        prune_nomination_state_def prune_values_nothing_finalised transactions_Value_new)

lemma example_prepare_merge:
  "merged_transactions {} [Value_new example_hash {1..200}] {201} = {1..201}"
  by (auto simp: merged_transactions_def transactions_Value_new)

lemma example_not_present:
  "\<not> is_value_already_present (snd (select_transactions example_hash example_merging_node))
       (Value_new example_hash (set [201]))"
proof -
  have "(1::int) \<in> {1..200}" and "(1::int) \<notin> {201}"
    by simp_all
  then have "{1..200} \<noteq> {201::int}"
    by blast
  then show ?thesis
    by (simp add: is_value_already_present_def example_select Value_in_def Value_eq_def
          transactions_Value_new)
qed

theorem merge_capped_at_MAX_SLOT_TXS_witness:
  "voted (nomination_state (process_received_message example_hash
       (Some (Value_new example_hash {1..201}), None) (Node_init \<lparr>ident = 0, name = ''N''\<rparr>)))
     = [Value_new example_hash (first_sorted 200 {1..201})]
   \<and> accepted (nomination_state (process_received_message example_hash
       (None, Some (Value_new example_hash {1..201})) (Node_init \<lparr>ident = 0, name = ''N''\<rparr>)))
     = [Value_new example_hash (first_sorted 200 {1..201})]
   \<and> voted (nomination_state (snd (prepare_nomination_msg example_hash example_merging_node)))
     = [Value_new example_hash (first_sorted 200 {1..201})]
   \<and> card (first_sorted 200 {1..201}) = 200"
proof -
  let ?N = "Node_init \<lparr>ident = 0, name = ''N''\<rparr>"
  let ?v = "Value_new example_hash {1..201}"
  let ?sel = "select_transactions example_hash example_merging_node"
  note F = Node_init_nomination
  have h1: "transactions ?v - get_finalized_transaction_ids ?N \<noteq> {}"
    by (simp add: F transactions_Value_new)
  have h2: "MAX_SLOT_TXS ?N < card (merged_transactions (get_finalized_transaction_ids ?N)
              (voted (nomination_state ?N)) (transactions ?v))"
    and h3: "MAX_SLOT_TXS ?N < card (merged_transactions (get_finalized_transaction_ids ?N)
              (accepted (nomination_state ?N)) (transactions ?v))"
    by (simp_all add: transactions_Value_new merged_transactions_def F)
  have h4: "select_transactions example_hash example_merging_node = (fst ?sel, snd ?sel)"
    by simp
  have h5: "fst ?sel \<noteq> []"
    by (simp add: example_select)
  have h6: "\<not> is_value_already_present (snd ?sel) (Value_new example_hash (set (fst ?sel)))"
    using example_not_present by (simp add: example_select)
  have h7: "voted (nomination_state (snd ?sel)) \<noteq> []"
    by (simp add: example_select)
  have h8: "MAX_SLOT_TXS (snd ?sel) < card (merged_transactions {}
              (voted (nomination_state (snd ?sel))) (set (fst ?sel)))"
    by (simp add: example_select example_prepare_merge)
  note received = merge_capped_at_MAX_SLOT_TXS [where v = ?v and st = ?N and hfs = example_hash
      and a = None and vo = None]
  note prepared = merge_capped_at_MAX_SLOT_TXS [where st = example_merging_node
      and hfs = example_hash and to_nominate = "fst ?sel" and ?st1.0 = "snd ?sel"]
  from received h1 h2
  have "voted (nomination_state (process_received_message example_hash (Some ?v, None) ?N))
          = [Value_new example_hash (first_sorted 200 {1..201})]
        \<and> card (first_sorted 200 {1..201}) = 200"
    by (simp add: transactions_Value_new merged_transactions_def F)
  moreover from received h1 h3
  have "accepted (nomination_state (process_received_message example_hash (None, Some ?v) ?N))
          = [Value_new example_hash (first_sorted 200 {1..201})]"
    by (simp add: transactions_Value_new merged_transactions_def F)
  moreover from prepared h4 h5 h6 h7 h8
  have "voted (nomination_state (snd (prepare_nomination_msg example_hash example_merging_node)))
          = [Value_new example_hash (first_sorted 200 {1..201})]"
    by (simp add: example_select example_prepare_merge)
  ultimately show ?thesis by blast
qed

end
